theory Spec2Isabelle
  imports Main "HOL-Library.Word" "HOL-Library.Sublist"
begin

section \<open>Strings, errors and promises\<close>

text \<open>
  A JavaScript string is a sequence of UTF-16 code units; \<open>substring\<close> and \<open>length\<close> count
  code units. \<open>js\<close> embeds an ASCII literal, one code unit per character.
\<close>

type_synonym jsstring = "16 word list"

definition js :: "string \<Rightarrow> jsstring" where
  "js s = map (\<lambda>c. word_of_nat (of_char c)) s"

text \<open>
  Truthiness of a value of type \<open>string | null\<close> (or \<open>string | undefined\<close>): \<open>null\<close>,
  \<open>undefined\<close> and the empty string are falsy, every other string is truthy.
\<close>

definition truthy :: "jsstring option \<Rightarrow> bool" where
  "truthy v = (case v of None \<Rightarrow> False | Some s \<Rightarrow> s \<noteq> [])"

text \<open>\<open>new Error(message)\<close>.\<close>

datatype error = Error jsstring

text \<open>
  The outcome of an \<open>async\<close> method: \<open>Inl e\<close> is a promise rejected with \<open>e\<close> (the body
  threw), \<open>Inr v\<close> a promise resolved with \<open>v\<close>.
\<close>

type_synonym 'a promise = "error + 'a"

section \<open>Axios errors and \<open>isAuthError\<close>\<close>

text \<open>
  Of an \<open>AxiosError\<close> the code reads only \<open>error.response?.status\<close>: the response may be
  missing, and its status is the HTTP status number.
\<close>

record AxiosResponse =
  status :: int

record AxiosError =
  response :: "AxiosResponse option"

text \<open>\<open>error.response?.status\<close>, with \<open>None\<close> for \<open>undefined\<close>.\<close>

definition response_status :: "AxiosError \<Rightarrow> int option" where
  "response_status err = map_option status (response err)"

definition isAuthError :: "AxiosError \<Rightarrow> bool" where
  "isAuthError err = (response_status err = Some 401 \<or> response_status err = Some 403)"

section \<open>\<open>RedmineAuthProvider\<close>\<close>

record RedmineAuthProvider =
  apiKey :: "jsstring option"
  switchUser :: "jsstring option"

text \<open>The field initialisers: both fields start as \<open>null\<close>.\<close>

definition RedmineAuthProvider_init :: RedmineAuthProvider where
  "RedmineAuthProvider_init = \<lparr>apiKey = None, switchUser = None\<rparr>"

definition setApiKey :: "jsstring \<Rightarrow> RedmineAuthProvider \<Rightarrow> RedmineAuthProvider" where
  "setApiKey k this = this\<lparr>apiKey := Some k\<rparr>"

definition setSwitchUser :: "jsstring \<Rightarrow> RedmineAuthProvider \<Rightarrow> RedmineAuthProvider" where
  "setSwitchUser username this = this\<lparr>switchUser := Some username\<rparr>"

text \<open>
  \<open>constructor(apiKey?: string, switchUser?: string)\<close>: each argument is passed on to its
  setter only when it is truthy.
\<close>

definition RedmineAuthProvider_new ::
    "jsstring option \<Rightarrow> jsstring option \<Rightarrow> RedmineAuthProvider" where
  "RedmineAuthProvider_new k u =
     (let this = RedmineAuthProvider_init;
          this = (if truthy k then setApiKey (the k) this else this);
          this = (if truthy u then setSwitchUser (the u) this else this)
      in this)"

definition clearAuth :: "RedmineAuthProvider \<Rightarrow> RedmineAuthProvider" where
  "clearAuth this = this\<lparr>apiKey := None, switchUser := None\<rparr>"

type_synonym header_map = "jsstring \<rightharpoonup> jsstring"

definition msg_key_not_set :: jsstring where
  "msg_key_not_set =
     js ''Redmine API key not set. Please set your API key using setApiKey() method.\<newline>\<newline>'' @
     js ''To get your API key:\<newline>'' @
     js ''1. Go to your Redmine profile page\<newline>'' @
     js ''2. Click on 'API access key'\<newline>'' @
     js ''3. Copy the generated key\<newline>'' @
     js ''4. Use setApiKey() to configure it''"

text \<open>
  The methods below take the provider and return their outcome together with the provider as
  the call leaves it.
\<close>

definition RedmineAuthProvider_getAuthHeaders ::
    "RedmineAuthProvider \<Rightarrow> header_map promise \<times> RedmineAuthProvider" where
  "RedmineAuthProvider_getAuthHeaders this =
     (if \<not> truthy (apiKey this) then (Inl (Error msg_key_not_set), this)
      else
        let headers = [js ''X-Redmine-API-Key'' \<mapsto> the (apiKey this),
                       js ''Accept'' \<mapsto> js ''application/json'',
                       js ''Content-Type'' \<mapsto> js ''application/json''];
            headers = (if truthy (switchUser this)
                       then headers(js ''X-Redmine-Switch-User'' \<mapsto> the (switchUser this))
                       else headers)
        in (Inr headers, this))"

text \<open>The arrow of the 401 message is the single code unit U+2192.\<close>

definition msg_401 :: jsstring where
  "msg_401 =
     js ''Redmine authentication failed (401 Unauthorized). Please check:\<newline>\<newline>'' @
     js ''1. Your API key is valid and not expired\<newline>'' @
     (js ''2. REST API is enabled in Redmine (Administration '' @ [0x2192] @ js '' Settings '' @
        [0x2192] @ js '' API '' @ [0x2192] @ js '' Enable REST API)\<newline>'') @
     js ''3. Your user account has API access enabled\<newline>'' @
     js ''4. The API key belongs to an active user account''"

definition msg_403 :: jsstring where
  "msg_403 =
     js ''Redmine access denied (403 Forbidden). Please check:\<newline>\<newline>'' @
     js ''1. Your user account has permission to access the requested resource\<newline>'' @
     js ''2. If using user impersonation, your API key belongs to an admin user\<newline>'' @
     js ''3. The REST API is properly configured in Redmine\<newline>'' @
     js ''4. Your user account is not locked or disabled''"

definition RedmineAuthProvider_handleAuthError ::
    "RedmineAuthProvider \<Rightarrow> AxiosError \<Rightarrow> bool promise \<times> RedmineAuthProvider" where
  "RedmineAuthProvider_handleAuthError this err =
     (let statusCode = response_status err
      in if statusCode = Some 401 then (Inl (Error msg_401), this)
         else if statusCode = Some 403 then (Inl (Error msg_403), this)
         else (Inr False, this))"

record AuthStatus =
  hasApiKey :: bool
  apiKeyPreview :: "jsstring option"
  statusSwitchUser :: "jsstring option"

text \<open>
  \<open>getAuthStatus\<close>: \<open>substring(0, 8)\<close> is \<open>take 8\<close>; the field \<open>switchUser\<close> of the returned
  object is \<open>statusSwitchUser\<close> here.
\<close>

definition getAuthStatus :: "RedmineAuthProvider \<Rightarrow> AuthStatus \<times> RedmineAuthProvider" where
  "getAuthStatus this =
     (\<lparr>hasApiKey = truthy (apiKey this),
       apiKeyPreview = (if truthy (apiKey this)
                        then Some (take 8 (the (apiKey this)) @ js ''...'')
                        else None),
       statusSwitchUser = switchUser this\<rparr>, this)"

section \<open>\<open>StaticAuthProvider\<close>\<close>

text \<open>
  The provider keeps a reference to a headers object and \<open>{ ...this.headers }\<close> builds a new
  object, so header objects live in a store: a reference is an index into the list of the
  objects allocated so far, and a new object is appended to it.
\<close>

type_synonym ref = nat

type_synonym heap = "header_map list"

definition alloc :: "heap \<Rightarrow> header_map \<Rightarrow> ref \<times> heap" where
  "alloc h obj = (length h, h @ [obj])"

text \<open>Reading the object behind a live reference (\<open>r < length h\<close>).\<close>

definition deref :: "heap \<Rightarrow> ref \<Rightarrow> header_map" where
  "deref h r = h ! r"

text \<open>Assigning a property of the object behind a live reference: \<open>obj[k] = v\<close>.\<close>

definition assign :: "heap \<Rightarrow> ref \<Rightarrow> jsstring \<Rightarrow> jsstring \<Rightarrow> heap" where
  "assign h r k v = h[r := (deref h r)(k \<mapsto> v)]"

text \<open>The private field \<open>headers\<close> holds a reference; it is \<open>headers_ref\<close> here.\<close>

record StaticAuthProvider =
  headers_ref :: ref

text \<open>
  \<open>constructor(private headers: Record<string, string> = {})\<close>: the default \<open>{}\<close> is a new
  empty object, made when no argument is given; a given object is stored as it is.
\<close>

definition StaticAuthProvider_new :: "ref option \<Rightarrow> heap \<Rightarrow> StaticAuthProvider \<times> heap" where
  "StaticAuthProvider_new arg h =
     (case arg of
        None \<Rightarrow> (let (r, h') = alloc h Map.empty in (\<lparr>headers_ref = r\<rparr>, h'))
      | Some r \<Rightarrow> (\<lparr>headers_ref = r\<rparr>, h))"

definition StaticAuthProvider_getAuthHeaders ::
    "StaticAuthProvider \<Rightarrow> heap \<Rightarrow> ref promise \<times> StaticAuthProvider \<times> heap" where
  "StaticAuthProvider_getAuthHeaders this h =
     (let (r, h') = alloc h (deref h (headers_ref this)) in (Inr r, this, h'))"

definition StaticAuthProvider_handleAuthError ::
    "StaticAuthProvider \<Rightarrow> AxiosError \<Rightarrow> bool promise \<times> StaticAuthProvider" where
  "StaticAuthProvider_handleAuthError this err = (Inr False, this)"

section \<open>Request context\<close>

text \<open>A header value of the inbound request: \<open>string | string[] | undefined\<close>.\<close>

datatype header_value = Single jsstring | Multi "jsstring list" | Undefined

record RequestContextValue =
  headers :: "(jsstring \<rightharpoonup> header_value) option"
  sessionId :: "jsstring option"

text \<open>
  \<open>AsyncLocalStorage\<close> of Node: code runs under a current store, \<open>None\<close> when there is
  none (\<open>undefined\<close>). A computation is a function of the store it runs under;
  \<open>storage.run(store, callback)\<close> runs the callback under the given store, whatever the store
  of the caller is, and returns what the callback returns; \<open>storage.getStore()\<close> reads the
  current store.
\<close>

definition storage_run ::
    "RequestContextValue \<Rightarrow> (RequestContextValue option \<Rightarrow> 'a) \<Rightarrow> RequestContextValue option \<Rightarrow> 'a" where
  "storage_run store callback current = callback (Some store)"

definition storage_getStore :: "RequestContextValue option \<Rightarrow> RequestContextValue option" where
  "storage_getStore current = current"

text \<open>
  The module does not export \<open>storage\<close>, so no other code enters, exits or disables a store
  of it. Node can still run code under the store of another async context: a function bound
  with \<open>AsyncResource.bind\<close> or \<open>AsyncLocalStorage.bind\<close>, or run through
  \<open>AsyncLocalStorage.snapshot\<close> or \<open>runInAsyncScope\<close>, runs under the store that was current
  when it was bound, whatever the store of its caller is.
\<close>

definition bound_call ::
    "RequestContextValue option \<Rightarrow> (RequestContextValue option \<Rightarrow> 'a) \<Rightarrow> RequestContextValue option \<Rightarrow> 'a" where
  "bound_call captured fn current = fn captured"

definition runWithRequestContext ::
    "RequestContextValue \<Rightarrow> (RequestContextValue option \<Rightarrow> 'a) \<Rightarrow> RequestContextValue option \<Rightarrow> 'a" where
  "runWithRequestContext context callback = storage_run context callback"

definition getRequestContext :: "RequestContextValue option \<Rightarrow> RequestContextValue option" where
  "getRequestContext = storage_getStore"

text \<open>
  The body of a callback, as far as the request context is concerned: it returns a value,
  or calls \<open>getRequestContext\<close> and goes on with what it got, or calls
  \<open>runWithRequestContext\<close> on a context and an inner callback and goes on with what that
  returned, or calls a function bound to another async context, given by the store captured
  at binding and the body of the function, and goes on with what that returned. Going on
  (the rest of a function, the continuation of an \<open>await\<close>) happens under the store the body
  itself runs under.
\<close>

datatype 'a chain =
    Return 'a
  | Get "RequestContextValue option \<Rightarrow> 'a chain"
  | Run RequestContextValue "'a chain" "'a \<Rightarrow> 'a chain"
  | Bound "RequestContextValue option" "'a chain" "'a \<Rightarrow> 'a chain"

text \<open>
  A switch of store inside a body: a \<open>runWithRequestContext\<close> call on a context, or a call
  of a function bound under a captured store.
\<close>

datatype switch = Scope RequestContextValue | BoundTo "RequestContextValue option"

text \<open>
  \<open>call body current\<close> runs a body under a store and gives its return value with the log of
  its \<open>getRequestContext\<close> calls, in order: the switches of the body itself that enclose the
  call, innermost first, and what the call returned.
\<close>

primrec call :: "'a chain \<Rightarrow> RequestContextValue option \<Rightarrow>
    'a \<times> (switch list \<times> RequestContextValue option) list" where
  "call (Return v) = (\<lambda>current. (v, []))"
| "call (Get k) =
     (\<lambda>current. let c = getRequestContext current;
                     (v, l) = call (k c) current
                 in (v, ([], c) # l))"
| "call (Run context body k) =
     (\<lambda>current. let (a, l1) = runWithRequestContext context (call body) current;
                     (v, l2) = call (k a) current
                 in (v, map (\<lambda>(p, c). (p @ [Scope context], c)) l1 @ l2))"
| "call (Bound captured body k) =
     (\<lambda>current. let (a, l1) = bound_call captured (call body) current;
                     (v, l2) = call (k a) current
                 in (v, map (\<lambda>(p, c). (p @ [BoundTo captured], c)) l1 @ l2))"

section \<open>Request body selection\<close>

text \<open>
  Modelled from the spec: the Request Body Selector (\<open>selectBody\<close>), which is not among the
  sources. A \<open>RequestBodySpec\<close> is the declared media types in document order, each with its
  schema fragment and per-field encoding. Selection prefers \<open>application/json\<close> if present,
  else takes the first declared media type; there is none when nothing is declared.
\<close>

record ('schema, 'enc) RequestBodySpec =
  contentTypes :: "(string \<times> 'schema \<times> 'enc) list"

definition selectBody :: "('schema, 'enc) RequestBodySpec \<Rightarrow> (string \<times> 'schema) option" where
  "selectBody requestBodySpec =
     (case find (\<lambda>(mediaType, _, _). mediaType = ''application/json'') (contentTypes requestBodySpec) of
        Some (mediaType, schema, _) \<Rightarrow> Some (mediaType, schema)
      | None \<Rightarrow>
          (case contentTypes requestBodySpec of
             [] \<Rightarrow> None
           | (mediaType, schema, _) # _ \<Rightarrow> Some (mediaType, schema)))"

section \<open>Properties\<close>

text \<open>
  C3. \<open>isAuthError\<close> returns true exactly when the error carries a response whose status is
  401 or 403; for any other status, and for an error with no response, it returns false.
\<close>

theorem isAuthError_iff:
  "isAuthError err \<longleftrightarrow> (\<exists>r. response err = Some r \<and> (status r = 401 \<or> status r = 403))"
  by (cases "response err") (auto simp: isAuthError_def response_status_def)

theorem isAuthError_iff_witness:
  "isAuthError \<lparr>response = Some \<lparr>status = 401\<rparr>\<rparr> \<and>
   isAuthError \<lparr>response = Some \<lparr>status = 403\<rparr>\<rparr> \<and>
   \<not> isAuthError \<lparr>response = Some \<lparr>status = 404\<rparr>\<rparr> \<and>
   \<not> isAuthError \<lparr>response = None\<rparr>"
  using isAuthError_iff [of "\<lparr>response = Some \<lparr>status = 401\<rparr>\<rparr>"]
        isAuthError_iff [of "\<lparr>response = Some \<lparr>status = 403\<rparr>\<rparr>"]
        isAuthError_iff [of "\<lparr>response = Some \<lparr>status = 404\<rparr>\<rparr>"]
        isAuthError_iff [of "\<lparr>response = None\<rparr>"]
  by simp

lemma msg_401_contains:
  "sublist (js ''Redmine authentication failed (401 Unauthorized)'') msg_401"
proof -
  have "js ''Redmine authentication failed (401 Unauthorized). Please check:\<newline>\<newline>'' =
        js ''Redmine authentication failed (401 Unauthorized)'' @ js ''. Please check:\<newline>\<newline>''"
    by (simp add: js_def)
  then have "prefix (js ''Redmine authentication failed (401 Unauthorized)'') msg_401"
    unfolding msg_401_def by simp
  then show ?thesis by (rule prefix_imp_sublist)
qed

lemma msg_403_contains:
  "sublist (js ''Redmine access denied (403 Forbidden)'') msg_403"
proof -
  have "js ''Redmine access denied (403 Forbidden). Please check:\<newline>\<newline>'' =
        js ''Redmine access denied (403 Forbidden)'' @ js ''. Please check:\<newline>\<newline>''"
    by (simp add: js_def)
  then have "prefix (js ''Redmine access denied (403 Forbidden)'') msg_403"
    unfolding msg_403_def by simp
  then show ?thesis by (rule prefix_imp_sublist)
qed

text \<open>
  C2. \<open>RedmineAuthProvider.handleAuthError\<close> raises a descriptive error for 401 and 403 and
  only then: on a response status 401 it throws an error whose message contains
  "Redmine authentication failed (401 Unauthorized)", on 403 one whose message contains
  "Redmine access denied (403 Forbidden)", and on every other status, or with no response,
  it returns false.
\<close>

theorem handleAuthError_raises_iff_401_403:
  "(response err = Some r \<and> status r = 401 \<longrightarrow>
      (\<exists>m. fst (RedmineAuthProvider_handleAuthError this err) = Inl (Error m) \<and>
           sublist (js ''Redmine authentication failed (401 Unauthorized)'') m)) \<and>
   (response err = Some r \<and> status r = 403 \<longrightarrow>
      (\<exists>m. fst (RedmineAuthProvider_handleAuthError this err) = Inl (Error m) \<and>
           sublist (js ''Redmine access denied (403 Forbidden)'') m)) \<and>
   (response err = None \<or> (response err = Some r \<and> status r \<noteq> 401 \<and> status r \<noteq> 403) \<longrightarrow>
      fst (RedmineAuthProvider_handleAuthError this err) = Inr False)"
  using msg_401_contains msg_403_contains
  by (auto simp: RedmineAuthProvider_handleAuthError_def response_status_def)

theorem handleAuthError_raises_iff_401_403_witness:
  "(\<exists>m. fst (RedmineAuthProvider_handleAuthError RedmineAuthProvider_init
              \<lparr>response = Some \<lparr>status = 401\<rparr>\<rparr>) = Inl (Error m) \<and>
        sublist (js ''Redmine authentication failed (401 Unauthorized)'') m) \<and>
   (\<exists>m. fst (RedmineAuthProvider_handleAuthError RedmineAuthProvider_init
              \<lparr>response = Some \<lparr>status = 403\<rparr>\<rparr>) = Inl (Error m) \<and>
        sublist (js ''Redmine access denied (403 Forbidden)'') m) \<and>
   fst (RedmineAuthProvider_handleAuthError RedmineAuthProvider_init
          \<lparr>response = Some \<lparr>status = 500\<rparr>\<rparr>) = Inr False \<and>
   fst (RedmineAuthProvider_handleAuthError RedmineAuthProvider_init \<lparr>response = None\<rparr>) = Inr False"
  using handleAuthError_raises_iff_401_403
          [of "\<lparr>response = Some \<lparr>status = 401\<rparr>\<rparr>" "\<lparr>status = 401\<rparr>" RedmineAuthProvider_init]
        handleAuthError_raises_iff_401_403
          [of "\<lparr>response = Some \<lparr>status = 403\<rparr>\<rparr>" "\<lparr>status = 403\<rparr>" RedmineAuthProvider_init]
        handleAuthError_raises_iff_401_403
          [of "\<lparr>response = Some \<lparr>status = 500\<rparr>\<rparr>" "\<lparr>status = 500\<rparr>" RedmineAuthProvider_init]
        handleAuthError_raises_iff_401_403
          [of "\<lparr>response = None\<rparr>" "\<lparr>status = 0\<rparr>" RedmineAuthProvider_init]
  by simp

text \<open>
  C7. Neither provider ever signals a retry: \<open>StaticAuthProvider.handleAuthError\<close> returns
  false for every error, and \<open>RedmineAuthProvider.handleAuthError\<close> returns false whenever
  it returns, which it does for every error that is not a 401 or a 403.
\<close>

theorem no_provider_signals_retry:
  "fst (StaticAuthProvider_handleAuthError sp err) = Inr False \<and>
   (\<forall>b. fst (RedmineAuthProvider_handleAuthError rp err) = Inr b \<longrightarrow> b = False) \<and>
   (\<not> isAuthError err \<longrightarrow> fst (RedmineAuthProvider_handleAuthError rp err) = Inr False) \<and>
   fst (StaticAuthProvider_handleAuthError sp err) \<noteq> Inr True \<and>
   fst (RedmineAuthProvider_handleAuthError rp err) \<noteq> Inr True"
  by (auto simp: StaticAuthProvider_handleAuthError_def RedmineAuthProvider_handleAuthError_def
        isAuthError_def Let_def)

theorem no_provider_signals_retry_witness:
  "\<not> isAuthError \<lparr>response = Some \<lparr>status = 500\<rparr>\<rparr> \<and>
   fst (RedmineAuthProvider_handleAuthError RedmineAuthProvider_init
          \<lparr>response = Some \<lparr>status = 500\<rparr>\<rparr>) = Inr False \<and>
   fst (StaticAuthProvider_handleAuthError \<lparr>headers_ref = 0\<rparr>
          \<lparr>response = Some \<lparr>status = 500\<rparr>\<rparr>) = Inr False"
  using no_provider_signals_retry
          [of "\<lparr>headers_ref = 0\<rparr>" "\<lparr>response = Some \<lparr>status = 500\<rparr>\<rparr>" RedmineAuthProvider_init]
  by (simp add: isAuthError_def response_status_def)

lemma header_names_distinct:
  "distinct [js ''X-Redmine-API-Key'', js ''Accept'', js ''Content-Type'',
             js ''X-Redmine-Switch-User'', js ''Authorization'']"
  by (simp add: js_def)

text \<open>
  C4, as amended. When the API key of a \<open>RedmineAuthProvider\<close> is a non-empty string
  \<open>k\<close>, \<open>getAuthHeaders\<close> succeeds and returns exactly the mapping of
  \<open>X-Redmine-API-Key\<close> to \<open>k\<close> and of \<open>Accept\<close> and \<open>Content-Type\<close> to
  \<open>application/json\<close>, extended with \<open>X-Redmine-Switch-User\<close> exactly when the switch user
  is a non-empty string; the mapping never has an \<open>Authorization\<close> header.
\<close>

theorem getAuthHeaders_with_key:
  assumes "apiKey this = Some k" and "k \<noteq> []"
  shows "\<exists>m. fst (RedmineAuthProvider_getAuthHeaders this) = Inr m \<and>
             m (js ''X-Redmine-API-Key'') = Some k \<and>
             m (js ''Accept'') = Some (js ''application/json'') \<and>
             m (js ''Content-Type'') = Some (js ''application/json'') \<and>
             m (js ''X-Redmine-Switch-User'') =
               (case switchUser this of None \<Rightarrow> None | Some u \<Rightarrow> if u = [] then None else Some u) \<and>
             dom m \<subseteq> {js ''X-Redmine-API-Key'', js ''Accept'', js ''Content-Type'',
                       js ''X-Redmine-Switch-User''} \<and>
             m (js ''Authorization'') = None"
proof (cases "truthy (switchUser this)")
  case True
  then obtain u where u: "switchUser this = Some u" "u \<noteq> []"
    by (auto simp: truthy_def split: option.splits)
  have "fst (RedmineAuthProvider_getAuthHeaders this) =
          Inr [js ''X-Redmine-API-Key'' \<mapsto> k, js ''Accept'' \<mapsto> js ''application/json'',
               js ''Content-Type'' \<mapsto> js ''application/json'',
               js ''X-Redmine-Switch-User'' \<mapsto> u]"
    using assms u by (simp add: RedmineAuthProvider_getAuthHeaders_def truthy_def)
  with u header_names_distinct show ?thesis by auto
next
  case False
  then have u: "switchUser this = None \<or> switchUser this = Some []"
    by (auto simp: truthy_def split: option.splits)
  have "fst (RedmineAuthProvider_getAuthHeaders this) =
          Inr [js ''X-Redmine-API-Key'' \<mapsto> k, js ''Accept'' \<mapsto> js ''application/json'',
               js ''Content-Type'' \<mapsto> js ''application/json'']"
    using assms False by (simp add: RedmineAuthProvider_getAuthHeaders_def truthy_def)
  with u header_names_distinct show ?thesis by auto
qed

theorem getAuthHeaders_with_key_witness:
  "\<exists>m. fst (RedmineAuthProvider_getAuthHeaders
              (setSwitchUser (js ''bot'') (setApiKey (js ''test-key'') RedmineAuthProvider_init))) = Inr m \<and>
       m (js ''X-Redmine-API-Key'') = Some (js ''test-key'') \<and>
       m (js ''Accept'') = Some (js ''application/json'') \<and>
       m (js ''Content-Type'') = Some (js ''application/json'') \<and>
       m (js ''X-Redmine-Switch-User'') = Some (js ''bot'') \<and>
       m (js ''Authorization'') = None"
proof -
  let ?p = "setSwitchUser (js ''bot'') (setApiKey (js ''test-key'') RedmineAuthProvider_init)"
  have k: "apiKey ?p = Some (js ''test-key'')"
    by (simp add: setSwitchUser_def setApiKey_def)
  have ne: "js ''test-key'' \<noteq> []"
    by (simp add: js_def)
  have su: "switchUser ?p = Some (js ''bot'')" "js ''bot'' \<noteq> []"
    by (simp_all add: setSwitchUser_def js_def)
  from getAuthHeaders_with_key [OF k ne] su show ?thesis
    by auto
qed

text \<open>
  C4 as stated fails for empty strings: after \<open>setApiKey("")\<close> a key is set and
  \<open>getAuthHeaders\<close> throws, and after \<open>setSwitchUser("")\<close> a switch user is set and no
  \<open>X-Redmine-Switch-User\<close> header is sent.
\<close>

theorem getAuthHeaders_empty_key_counterexample:
  "apiKey (setApiKey [] RedmineAuthProvider_init) = Some [] \<and>
   fst (RedmineAuthProvider_getAuthHeaders (setApiKey [] RedmineAuthProvider_init)) =
     Inl (Error msg_key_not_set) \<and>
   switchUser (setSwitchUser [] (setApiKey (js ''k'') RedmineAuthProvider_init)) = Some [] \<and>
   fst (RedmineAuthProvider_getAuthHeaders
          (setSwitchUser [] (setApiKey (js ''k'') RedmineAuthProvider_init))) =
     Inr [js ''X-Redmine-API-Key'' \<mapsto> js ''k'', js ''Accept'' \<mapsto> js ''application/json'',
          js ''Content-Type'' \<mapsto> js ''application/json'']"
  by (simp add: RedmineAuthProvider_getAuthHeaders_def setApiKey_def setSwitchUser_def
        RedmineAuthProvider_init_def truthy_def js_def)

lemma take_eq_Nil_iff: "take 8 k1 = take 8 k2 \<Longrightarrow> (k1 = []) = (k2 = [])"
  by (cases k1; cases k2) simp_all

text \<open>
  C8, as amended. \<open>getAuthStatus\<close> reveals at most the first 8 code units of the API key:
  two providers whose keys are set and agree on their first 8 code units, with equal switch
  users, have equal status. The preview is the first 8 code units of the key followed by
  "..." when the key is a non-empty string, and null when the key is null or empty; so
  \<open>hasApiKey\<close> is true exactly when the preview is not null.
\<close>

theorem getAuthStatus_preview:
  "(apiKey p1 = Some k1 \<and> apiKey p2 = Some k2 \<and> take 8 k1 = take 8 k2 \<and>
      switchUser p1 = switchUser p2 \<longrightarrow> fst (getAuthStatus p1) = fst (getAuthStatus p2)) \<and>
   apiKeyPreview (fst (getAuthStatus p)) =
     (case apiKey p of None \<Rightarrow> None
      | Some k \<Rightarrow> if k = [] then None else Some (take 8 k @ js ''...'')) \<and>
   (hasApiKey (fst (getAuthStatus p)) \<longleftrightarrow> apiKeyPreview (fst (getAuthStatus p)) \<noteq> None)"
proof (intro conjI impI)
  assume a: "apiKey p1 = Some k1 \<and> apiKey p2 = Some k2 \<and> take 8 k1 = take 8 k2 \<and>
      switchUser p1 = switchUser p2"
  then have "(k1 = []) = (k2 = [])" by (intro take_eq_Nil_iff) simp
  with a show "fst (getAuthStatus p1) = fst (getAuthStatus p2)"
    by (simp add: getAuthStatus_def truthy_def)
next
  show "apiKeyPreview (fst (getAuthStatus p)) =
     (case apiKey p of None \<Rightarrow> None
      | Some k \<Rightarrow> if k = [] then None else Some (take 8 k @ js ''...''))"
    by (simp add: getAuthStatus_def truthy_def split: option.splits)
next
  show "hasApiKey (fst (getAuthStatus p)) \<longleftrightarrow> apiKeyPreview (fst (getAuthStatus p)) \<noteq> None"
    by (simp add: getAuthStatus_def)
qed

theorem getAuthStatus_preview_witness:
  "fst (getAuthStatus (setApiKey (js ''very-long-api-key-for-testing'') RedmineAuthProvider_init)) =
   fst (getAuthStatus (setApiKey (js ''very-lonely'') RedmineAuthProvider_init)) \<and>
   apiKeyPreview (fst (getAuthStatus (setApiKey (js ''very-long-api-key-for-testing'')
     RedmineAuthProvider_init))) = Some (js ''very-lon...'')"
proof -
  let ?p1 = "setApiKey (js ''very-long-api-key-for-testing'') RedmineAuthProvider_init"
  let ?p2 = "setApiKey (js ''very-lonely'') RedmineAuthProvider_init"
  have h: "apiKey ?p1 = Some (js ''very-long-api-key-for-testing'') \<and>
           apiKey ?p2 = Some (js ''very-lonely'') \<and>
           take 8 (js ''very-long-api-key-for-testing'') = take 8 (js ''very-lonely'') \<and>
           switchUser ?p1 = switchUser ?p2"
    by (simp add: setApiKey_def js_def)
  have e: "js ''very-long-api-key-for-testing'' \<noteq> []"
          "take 8 (js ''very-long-api-key-for-testing'') @ js ''...'' = js ''very-lon...''"
    by (simp_all add: js_def)
  note t = getAuthStatus_preview
         [of ?p1 "js ''very-long-api-key-for-testing''" ?p2 "js ''very-lonely''" ?p1]
  from t h have 1: "fst (getAuthStatus ?p1) = fst (getAuthStatus ?p2)"
    by blast
  from t have "apiKeyPreview (fst (getAuthStatus ?p1)) =
     (case apiKey ?p1 of None \<Rightarrow> None
      | Some k \<Rightarrow> if k = [] then None else Some (take 8 k @ js ''...''))"
    by blast
  with h e have 2: "apiKeyPreview (fst (getAuthStatus ?p1)) = Some (js ''very-lon...'')"
    by simp
  from 1 2 show ?thesis
    by blast
qed

text \<open>
  C8 as stated fails for the empty key: after \<open>setApiKey("")\<close> a key is set, and the preview
  is null, not "...".
\<close>

theorem getAuthStatus_empty_key_counterexample:
  "apiKey (setApiKey [] RedmineAuthProvider_init) = Some [] \<and>
   apiKeyPreview (fst (getAuthStatus (setApiKey [] RedmineAuthProvider_init))) = None \<and>
   apiKeyPreview (fst (getAuthStatus (setApiKey [] RedmineAuthProvider_init))) \<noteq>
     Some (take 8 [] @ js ''...'') \<and>
   \<not> hasApiKey (fst (getAuthStatus (setApiKey [] RedmineAuthProvider_init)))"
  by (simp add: getAuthStatus_def setApiKey_def RedmineAuthProvider_init_def truthy_def)

text \<open>
  C1, as amended. \<open>RedmineAuthProvider.getAuthHeaders\<close> throws whenever the API key is null or
  empty: on a provider constructed without a key, and after \<open>clearAuth\<close>.
  \<open>StaticAuthProvider.getAuthHeaders\<close> never fails: it always resolves, and on a provider
  constructed with no headers it resolves to an empty mapping.
\<close>

theorem getAuthHeaders_without_credentials:
  "(\<not> truthy (apiKey this) \<longrightarrow>
      fst (RedmineAuthProvider_getAuthHeaders this) = Inl (Error msg_key_not_set)) \<and>
   fst (RedmineAuthProvider_getAuthHeaders (RedmineAuthProvider_new None u)) =
     Inl (Error msg_key_not_set) \<and>
   fst (RedmineAuthProvider_getAuthHeaders (clearAuth this)) = Inl (Error msg_key_not_set) \<and>
   (\<exists>r. fst (StaticAuthProvider_getAuthHeaders sp h) = Inr r) \<and>
   (case StaticAuthProvider_new None h of
      (sp0, h0) \<Rightarrow>
        (case StaticAuthProvider_getAuthHeaders sp0 h0 of
           (res, sp1, h1) \<Rightarrow> \<exists>r. res = Inr r \<and> deref h1 r = Map.empty))"
  by (simp add: RedmineAuthProvider_getAuthHeaders_def RedmineAuthProvider_new_def
        RedmineAuthProvider_init_def clearAuth_def setSwitchUser_def truthy_def
        StaticAuthProvider_getAuthHeaders_def StaticAuthProvider_new_def alloc_def deref_def
        Let_def nth_append)

theorem getAuthHeaders_without_credentials_witness:
  "\<not> truthy (apiKey (setApiKey [] RedmineAuthProvider_init)) \<and>
   fst (RedmineAuthProvider_getAuthHeaders (setApiKey [] RedmineAuthProvider_init)) =
     Inl (Error msg_key_not_set)"
  using getAuthHeaders_without_credentials [of "setApiKey [] RedmineAuthProvider_init"]
  by (simp add: setApiKey_def truthy_def)

text \<open>
  C1 as stated fails for \<open>StaticAuthProvider\<close>: constructed with no headers, on an empty
  store, its \<open>getAuthHeaders\<close> resolves to a new empty object and raises nothing.
\<close>

theorem static_getAuthHeaders_counterexample:
  "StaticAuthProvider_new None [] = (\<lparr>headers_ref = 0\<rparr>, [Map.empty]) \<and>
   StaticAuthProvider_getAuthHeaders \<lparr>headers_ref = 0\<rparr> [Map.empty] =
     (Inr 1, \<lparr>headers_ref = 0\<rparr>, [Map.empty, Map.empty]) \<and>
   deref [Map.empty, Map.empty] 1 = Map.empty"
  by (simp add: StaticAuthProvider_new_def StaticAuthProvider_getAuthHeaders_def alloc_def
        deref_def)

lemma static_getAuthHeaders_frame:
  assumes "headers_ref sp < length h"
  shows "StaticAuthProvider_getAuthHeaders sp h =
           (Inr (length h), sp, h @ [deref h (headers_ref sp)])"
    and "\<forall>a<length h. deref (h @ [deref h (headers_ref sp)]) a = deref h a"
    and "deref (h @ [deref h (headers_ref sp)]) (length h) = deref h (headers_ref sp)"
    and "\<forall>k v. deref (assign (h @ [deref h (headers_ref sp)]) (length h) k v) (headers_ref sp) =
            deref h (headers_ref sp)"
  using assms
  by (simp_all add: StaticAuthProvider_getAuthHeaders_def alloc_def deref_def assign_def
        nth_append)

text \<open>
  C9. The query operations leave the provider as it was: \<open>getAuthHeaders\<close>,
  \<open>handleAuthError\<close> and \<open>getAuthStatus\<close> of \<open>RedmineAuthProvider\<close> return the provider
  unchanged, whether they succeed or throw; \<open>StaticAuthProvider.getAuthHeaders\<close> leaves the
  provider and every object of the store unchanged and returns a new object with the stored
  headers, so that assigning to the returned object does not reach the stored one. The
  setters and \<open>clearAuth\<close> are the operations that write the fields.
\<close>

theorem query_operations_leave_state:
  "snd (RedmineAuthProvider_getAuthHeaders this) = this \<and>
   snd (RedmineAuthProvider_handleAuthError this err) = this \<and>
   snd (getAuthStatus this) = this \<and>
   snd (StaticAuthProvider_handleAuthError sp err) = sp \<and>
   (headers_ref sp < length h \<longrightarrow>
      fst (snd (StaticAuthProvider_getAuthHeaders sp h)) = sp \<and>
      (\<forall>a<length h. deref (snd (snd (StaticAuthProvider_getAuthHeaders sp h))) a = deref h a) \<and>
      (\<exists>r. fst (StaticAuthProvider_getAuthHeaders sp h) = Inr r \<and>
           length h \<le> r \<and> r < length (snd (snd (StaticAuthProvider_getAuthHeaders sp h))) \<and>
           deref (snd (snd (StaticAuthProvider_getAuthHeaders sp h))) r = deref h (headers_ref sp) \<and>
           (\<forall>k v. deref (assign (snd (snd (StaticAuthProvider_getAuthHeaders sp h))) r k v)
                    (headers_ref sp) = deref h (headers_ref sp)))) \<and>
   apiKey (setApiKey k this) = Some k \<and> switchUser (setApiKey k this) = switchUser this \<and>
   switchUser (setSwitchUser u this) = Some u \<and> apiKey (setSwitchUser u this) = apiKey this \<and>
   apiKey (clearAuth this) = None \<and> switchUser (clearAuth this) = None"
proof -
  have redmine: "snd (RedmineAuthProvider_getAuthHeaders this) = this"
    "snd (RedmineAuthProvider_handleAuthError this err) = this"
    "snd (getAuthStatus this) = this"
    "snd (StaticAuthProvider_handleAuthError sp err) = sp"
    by (simp_all add: RedmineAuthProvider_getAuthHeaders_def Let_def
          RedmineAuthProvider_handleAuthError_def getAuthStatus_def
          StaticAuthProvider_handleAuthError_def)
  have setters: "apiKey (setApiKey k this) = Some k" "switchUser (setApiKey k this) = switchUser this"
    "switchUser (setSwitchUser u this) = Some u" "apiKey (setSwitchUser u this) = apiKey this"
    "apiKey (clearAuth this) = None" "switchUser (clearAuth this) = None"
    by (simp_all add: setApiKey_def setSwitchUser_def clearAuth_def)
  have static: "fst (snd (StaticAuthProvider_getAuthHeaders sp h)) = sp \<and>
      (\<forall>a<length h. deref (snd (snd (StaticAuthProvider_getAuthHeaders sp h))) a = deref h a) \<and>
      (\<exists>r. fst (StaticAuthProvider_getAuthHeaders sp h) = Inr r \<and>
           length h \<le> r \<and> r < length (snd (snd (StaticAuthProvider_getAuthHeaders sp h))) \<and>
           deref (snd (snd (StaticAuthProvider_getAuthHeaders sp h))) r = deref h (headers_ref sp) \<and>
           (\<forall>k v. deref (assign (snd (snd (StaticAuthProvider_getAuthHeaders sp h))) r k v)
                    (headers_ref sp) = deref h (headers_ref sp)))"
    if live: "headers_ref sp < length h"
    using static_getAuthHeaders_frame [OF live] by simp
  from redmine setters static show ?thesis by blast
qed

theorem query_operations_leave_state_witness:
  "fst (StaticAuthProvider_getAuthHeaders \<lparr>headers_ref = 0\<rparr> [[js ''X-Api'' \<mapsto> js ''1'']]) = Inr 1 \<and>
   fst (snd (StaticAuthProvider_getAuthHeaders \<lparr>headers_ref = 0\<rparr> [[js ''X-Api'' \<mapsto> js ''1'']])) =
     \<lparr>headers_ref = 0\<rparr> \<and>
   deref (assign (snd (snd (StaticAuthProvider_getAuthHeaders \<lparr>headers_ref = 0\<rparr>
            [[js ''X-Api'' \<mapsto> js ''1'']]))) 1 (js ''X-Api'') (js ''2'')) 0 =
     [js ''X-Api'' \<mapsto> js ''1'']"
proof -
  have live: "headers_ref \<lparr>headers_ref = 0\<rparr> < length [[js ''X-Api'' \<mapsto> js ''1'']]"
    by simp
  have res: "fst (StaticAuthProvider_getAuthHeaders \<lparr>headers_ref = 0\<rparr>
               [[js ''X-Api'' \<mapsto> js ''1'']]) = Inr 1"
    by (simp add: StaticAuthProvider_getAuthHeaders_def alloc_def)
  have old: "deref [[js ''X-Api'' \<mapsto> js ''1'']] (headers_ref \<lparr>headers_ref = 0\<rparr>) =
               [js ''X-Api'' \<mapsto> js ''1'']"
    by (simp add: deref_def)
  from query_operations_leave_state
         [of RedmineAuthProvider_init "\<lparr>response = None\<rparr>" "\<lparr>headers_ref = 0\<rparr>"
             "[[js ''X-Api'' \<mapsto> js ''1'']]" "[]" "[]"]
       live res old
  show ?thesis
    by auto
qed

lemma snd_call_Get:
  "snd (call (Get k) current) = ([], current) # snd (call (k current) current)"
  by (simp add: getRequestContext_def storage_getStore_def split_beta)

lemma snd_call_Run:
  "snd (call (Run context body k) current) =
     map (\<lambda>(p, c). (p @ [Scope context], c)) (snd (call body (Some context))) @
     snd (call (k (fst (call body (Some context)))) current)"
  by (simp add: runWithRequestContext_def storage_run_def split_beta)

lemma snd_call_Bound:
  "snd (call (Bound captured body k) current) =
     map (\<lambda>(p, c). (p @ [BoundTo captured], c)) (snd (call body captured)) @
     snd (call (k (fst (call body captured))) current)"
  by (simp add: bound_call_def split_beta)

lemma call_reads:
  "(p, x) \<in> set (snd (call body current)) \<Longrightarrow>
   x = (case p of [] \<Rightarrow> current | Scope c # _ \<Rightarrow> Some c | BoundTo b # _ \<Rightarrow> b)"
proof (induction body arbitrary: current p x)
  case (Return v)
  then show ?case by simp
next
  case (Get k)
  from Get.prems consider
      (here) "p = []" "x = current"
    | (rest) "(p, x) \<in> set (snd (call (k current) current))"
    unfolding snd_call_Get by auto
  then show ?case
  proof cases
    case here
    then show ?thesis by simp
  next
    case rest
    then show ?thesis by (rule Get.IH [OF rangeI])
  qed
next
  case (Run ctx body k)
  from Run.prems consider
      (inner) q where "p = q @ [Scope ctx]" "(q, x) \<in> set (snd (call body (Some ctx)))"
    | (rest) "(p, x) \<in> set (snd (call (k (fst (call body (Some ctx)))) current))"
    unfolding snd_call_Run by auto
  then show ?case
  proof cases
    case inner
    from Run.IH(1) [OF inner(2)] inner(1) show ?thesis
      by (cases q) simp_all
  next
    case rest
    then show ?thesis by (rule Run.IH(2) [OF rangeI])
  qed
next
  case (Bound captured body k)
  from Bound.prems consider
      (inner) q where "p = q @ [BoundTo captured]" "(q, x) \<in> set (snd (call body captured))"
    | (rest) "(p, x) \<in> set (snd (call (k (fst (call body captured))) current))"
    unfolding snd_call_Bound by auto
  then show ?case
  proof cases
    case inner
    from Bound.IH(1) [OF inner(2)] inner(1) show ?thesis
      by (cases q) simp_all
  next
    case rest
    then show ?thesis by (rule Bound.IH(2) [OF rangeI])
  qed
qed

text \<open>
  C5, as amended. \<open>runWithRequestContext(c, f)\<close> returns exactly what \<open>f\<close> returns when run
  under \<open>c\<close>, whatever the context of the caller. A call to \<open>getRequestContext\<close> in the call
  chain of \<open>f\<close> returns \<open>c\<close> when \<open>f\<close> makes it outside any \<open>runWithRequestContext\<close> call
  of its own and not through a function bound to another async context; inside a nested
  \<open>runWithRequestContext\<close> call it returns the context of the innermost such call, and
  through a bound function the store captured at binding. A call made outside every scope,
  and not through a bound function, returns undefined.
\<close>

theorem request_context_scoped:
  "runWithRequestContext c (call f) current = call f (Some c) \<and>
   runWithRequestContext c getRequestContext current = Some c \<and>
   (\<forall>(p, x) \<in> set (snd (runWithRequestContext c (call f) current)).
      x = (case p of [] \<Rightarrow> Some c | Scope c' # _ \<Rightarrow> Some c' | BoundTo b # _ \<Rightarrow> b)) \<and>
   getRequestContext None = None \<and>
   (\<forall>(p, x) \<in> set (snd (call f None)).
      x = (case p of [] \<Rightarrow> None | Scope c' # _ \<Rightarrow> Some c' | BoundTo b # _ \<Rightarrow> b))"
proof (intro conjI)
  show run: "runWithRequestContext c (call f) current = call f (Some c)"
    by (simp add: runWithRequestContext_def storage_run_def)
  show "runWithRequestContext c getRequestContext current = Some c"
    by (simp add: runWithRequestContext_def storage_run_def getRequestContext_def
          storage_getStore_def)
  show "\<forall>(p, x) \<in> set (snd (runWithRequestContext c (call f) current)).
      x = (case p of [] \<Rightarrow> Some c | Scope c' # _ \<Rightarrow> Some c' | BoundTo b # _ \<Rightarrow> b)"
    unfolding run
  proof clarify
    fix p x
    assume "(p, x) \<in> set (snd (call f (Some c)))"
    then show "x = (case p of [] \<Rightarrow> Some c | Scope c' # _ \<Rightarrow> Some c' | BoundTo b # _ \<Rightarrow> b)"
      by (rule call_reads)
  qed
  show "getRequestContext None = None"
    by (simp add: getRequestContext_def storage_getStore_def)
  show "\<forall>(p, x) \<in> set (snd (call f None)).
      x = (case p of [] \<Rightarrow> None | Scope c' # _ \<Rightarrow> Some c' | BoundTo b # _ \<Rightarrow> b)"
  proof clarify
    fix p x
    assume "(p, x) \<in> set (snd (call f None))"
    then show "x = (case p of [] \<Rightarrow> None | Scope c' # _ \<Rightarrow> Some c' | BoundTo b # _ \<Rightarrow> b)"
      by (rule call_reads)
  qed
qed

theorem request_context_scoped_witness:
  "snd (runWithRequestContext \<lparr>headers = None, sessionId = Some (js ''a'')\<rparr>
          (call (Get (\<lambda>x. Run \<lparr>headers = None, sessionId = Some (js ''b'')\<rparr> (Get Return)
                   (\<lambda>y. Bound None (Get Return) (\<lambda>z. Get Return))))) None) =
     [([], Some \<lparr>headers = None, sessionId = Some (js ''a'')\<rparr>),
      ([Scope \<lparr>headers = None, sessionId = Some (js ''b'')\<rparr>],
         Some \<lparr>headers = None, sessionId = Some (js ''b'')\<rparr>),
      ([BoundTo None], None),
      ([], Some \<lparr>headers = None, sessionId = Some (js ''a'')\<rparr>)] \<and>
   snd (hd (snd (runWithRequestContext \<lparr>headers = None, sessionId = Some (js ''a'')\<rparr>
          (call (Get (\<lambda>x. Run \<lparr>headers = None, sessionId = Some (js ''b'')\<rparr> (Get Return)
                   (\<lambda>y. Bound None (Get Return) (\<lambda>z. Get Return))))) None))) =
     Some \<lparr>headers = None, sessionId = Some (js ''a'')\<rparr>"
proof -
  let ?a = "\<lparr>headers = None, sessionId = Some (js ''a'')\<rparr>"
  let ?b = "\<lparr>headers = None, sessionId = Some (js ''b'')\<rparr>"
  let ?f = "Get (\<lambda>x. Run ?b (Get Return) (\<lambda>y. Bound None (Get Return) (\<lambda>z. Get Return)))"
  let ?log = "snd (runWithRequestContext ?a (call ?f) None)"
  have log: "?log = [([], Some ?a), ([Scope ?b], Some ?b), ([BoundTo None], None), ([], Some ?a)]"
    by (simp add: runWithRequestContext_def storage_run_def bound_call_def
          getRequestContext_def storage_getStore_def)
  then have first: "hd ?log \<in> set ?log" "fst (hd ?log) = []"
    by simp_all
  from request_context_scoped [of ?a ?f None]
  have "\<forall>(p, x) \<in> set ?log.
          x = (case p of [] \<Rightarrow> Some ?a | Scope c' # _ \<Rightarrow> Some c' | BoundTo b # _ \<Rightarrow> b)"
    by (elim conjE)
  then have "case hd ?log of
               (p, x) \<Rightarrow> x = (case p of [] \<Rightarrow> Some ?a | Scope c' # _ \<Rightarrow> Some c' | BoundTo b # _ \<Rightarrow> b)"
    using first(1) by (rule bspec)
  with first(2) have "snd (hd ?log) = Some ?a"
    by (simp add: case_prod_unfold)
  with log show ?thesis
    by (rule conjI)
qed

text \<open>
  C5 as stated fails in three ways. In the call chain of \<open>f\<close> under \<open>a\<close>, a
  \<open>getRequestContext\<close> call inside a \<open>runWithRequestContext\<close> call of \<open>f\<close> on \<open>b\<close> returns
  \<open>b\<close>, and one made through a function bound where there was no store returns undefined;
  outside every scope, a call made through a function bound under \<open>a\<close> returns \<open>a\<close>.
\<close>

theorem request_context_read_counterexample:
  "runWithRequestContext \<lparr>headers = None, sessionId = Some (js ''a'')\<rparr>
     (call (Run \<lparr>headers = None, sessionId = Some (js ''b'')\<rparr> (Get Return) Return)) None =
     (Some \<lparr>headers = None, sessionId = Some (js ''b'')\<rparr>,
      [([Scope \<lparr>headers = None, sessionId = Some (js ''b'')\<rparr>],
        Some \<lparr>headers = None, sessionId = Some (js ''b'')\<rparr>)]) \<and>
   \<lparr>headers = None, sessionId = Some (js ''b'')\<rparr> \<noteq> \<lparr>headers = None, sessionId = Some (js ''a'')\<rparr> \<and>
   runWithRequestContext \<lparr>headers = None, sessionId = Some (js ''a'')\<rparr>
     (call (Bound None (Get Return) Return)) None = (None, [([BoundTo None], None)]) \<and>
   call (Bound (Some \<lparr>headers = None, sessionId = Some (js ''a'')\<rparr>) (Get Return) Return) None =
     (Some \<lparr>headers = None, sessionId = Some (js ''a'')\<rparr>,
      [([BoundTo (Some \<lparr>headers = None, sessionId = Some (js ''a'')\<rparr>)],
        Some \<lparr>headers = None, sessionId = Some (js ''a'')\<rparr>)])"
  by (simp add: runWithRequestContext_def storage_run_def bound_call_def getRequestContext_def
        storage_getStore_def js_def)

lemma find_json_Some:
  "''application/json'' \<in> fst ` set cts \<Longrightarrow>
   \<exists>s e. find (\<lambda>(mediaType, _, _). mediaType = ''application/json'') cts = Some (''application/json'', s, e)"
  by (induction cts) (auto split: prod.splits)

lemma find_json_None:
  "''application/json'' \<notin> fst ` set cts \<Longrightarrow>
   find (\<lambda>(mediaType, _, _). mediaType = ''application/json'') cts = None"
  by (induction cts) (auto split: prod.splits)

text \<open>
  C6. Selection of the body content type prefers JSON: from \<open>application/json\<close> and
  \<open>application/xml\<close>, declared in either order, \<open>selectBody\<close> selects
  \<open>application/json\<close>; in general it selects \<open>application/json\<close> whenever it is declared,
  and otherwise the first declared media type (none when nothing is declared). Being a
  function of the declared list, the selection is deterministic.
\<close>

theorem selectBody_prefers_json:
  "map_option fst (selectBody \<lparr>contentTypes = [(''application/json'', s1, e1), (''application/xml'', s2, e2)]\<rparr>) =
     Some ''application/json'' \<and>
   map_option fst (selectBody \<lparr>contentTypes = [(''application/xml'', s2, e2), (''application/json'', s1, e1)]\<rparr>) =
     Some ''application/json'' \<and>
   (''application/json'' \<in> fst ` set (contentTypes spec) \<longrightarrow>
      map_option fst (selectBody spec) = Some ''application/json'') \<and>
   (''application/json'' \<notin> fst ` set (contentTypes spec) \<longrightarrow>
      selectBody spec =
        (case contentTypes spec of [] \<Rightarrow> None | (mediaType, schema, _) # _ \<Rightarrow> Some (mediaType, schema)))"
proof -
  have a: "map_option fst (selectBody spec) = Some ''application/json''"
    if "''application/json'' \<in> fst ` set (contentTypes spec)"
    using find_json_Some [OF that] by (auto simp: selectBody_def)
  have b: "selectBody spec =
        (case contentTypes spec of [] \<Rightarrow> None | (mediaType, schema, _) # _ \<Rightarrow> Some (mediaType, schema))"
    if "''application/json'' \<notin> fst ` set (contentTypes spec)"
    using find_json_None [OF that] by (simp add: selectBody_def)
  have c: "map_option fst (selectBody \<lparr>contentTypes = [(''application/json'', s1, e1), (''application/xml'', s2, e2)]\<rparr>) =
     Some ''application/json''"
    "map_option fst (selectBody \<lparr>contentTypes = [(''application/xml'', s2, e2), (''application/json'', s1, e1)]\<rparr>) =
     Some ''application/json''"
    by (simp_all add: selectBody_def)
  from a b c show ?thesis by blast
qed

theorem selectBody_prefers_json_witness:
  "selectBody \<lparr>contentTypes = [(''text/plain'', 1::nat, ()), (''application/json'', 2, ())]\<rparr> =
     Some (''application/json'', 2) \<and>
   selectBody \<lparr>contentTypes = [(''text/plain'', 1::nat, ()), (''application/xml'', 2, ())]\<rparr> =
     Some (''text/plain'', 1)"
proof -
  let ?spec = "\<lparr>contentTypes = [(''text/plain'', 1::nat, ()), (''application/xml'', 2, ())]\<rparr>"
  have n: "''application/json'' \<notin> fst ` set (contentTypes ?spec)"
    by simp
  from selectBody_prefers_json [of "1::nat" "()" 2 "()" ?spec]
  have "''application/json'' \<notin> fst ` set (contentTypes ?spec) \<longrightarrow>
        selectBody ?spec =
          (case contentTypes ?spec of [] \<Rightarrow> None
           | (mediaType, schema, _) # _ \<Rightarrow> Some (mediaType, schema))"
    by (elim conjE)
  with n have 1: "selectBody ?spec = Some (''text/plain'', 1)"
    by simp
  have 2: "selectBody \<lparr>contentTypes = [(''text/plain'', 1::nat, ()), (''application/json'', 2, ())]\<rparr> =
     Some (''application/json'', 2)"
    by (simp add: selectBody_def)
  from 1 2 show ?thesis by simp
qed

end
